theory Spec2Isabelle
  imports Complex_Main
begin

section \<open>The camera hook of LinaQuest (src/components/useCamera.ts)\<close>

text \<open>
  The source file holds two variants of the Vue composable \<open>useCamera\<close>. Both close over
  a handful of reactive cells (\<open>ref\<close>s) and a set of functions that read and write them
  from the per-frame callback of the video element. The embedding below keeps the cells
  as the fields of one record and turns every function into a state transformer.

  The routines \<open>getContext\<close>, \<open>detectFaces\<close> and \<open>addLandmarks\<close> are the same text in
  both variants and are embedded once. The routines that differ carry the suffix
  \<open>_v1\<close> (first variant, lines 1-143) or \<open>_v2\<close> (second variant, lines 144-304).
\<close>

subsection \<open>Data handed over by the platform and by face-api.js\<close>

text \<open>
  One entry of \<open>expressions.asSortedArray()\<close>: the label and its probability. The
  array is produced by the external library and is taken as data, in the order the
  library returns it; the source only reads \<open>[0].expression\<close>.
\<close>

record expression_entry =
  expression :: string
  probability :: rat

type_synonym landmark_points = "(int \<times> int) list"

text \<open>
  The value that \<open>detectSingleFace(...).withFaceLandmarks().withFaceExpressions()\<close>
  resolves to when a face is found (\<open>undefined\<close>, here \<open>None\<close>, otherwise).
\<close>

record detection =
  landmarks :: "landmark_points option"
  sortedExpressions :: "expression_entry list"

text \<open>The video element: the two attributes the source reads and the two it sets.\<close>

record video =
  paused :: bool
  ended :: bool
  srcObject :: bool
  playCalled :: bool

text \<open>
  A canvas element. \<open>context2d\<close> tells whether \<open>getContext('2d')\<close> yields a context;
  \<open>drawnImages\<close> counts the \<open>drawImage\<close> calls and \<open>drawnLandmarks\<close> lists the
  \<open>drawFaceLandmarks\<close> calls issued on the element.
\<close>

record canvas =
  width :: nat
  height :: nat
  context2d :: bool
  style_filter :: string
  drawnImages :: nat
  drawnLandmarks :: "landmark_points list"

text \<open>
  The overlay element of the second variant. Its background is assigned
  \<open>rgb(250 150 150 / ${mood.value / 180})\<close>; the three channels and the exact quotient
  are kept, the decimal rendering of the quotient is not.
\<close>

datatype css_colour = Rgb nat nat nat rat

record filter_element =
  style_background :: "css_colour option"

subsection \<open>The state of the composable\<close>

text \<open>
  The first ten fields are the reactive cells of the source (\<open>sizeRef\<close> is the cell
  \<open>size\<close>; \<open>canvasRawElement\<close> exists in the first variant only, \<open>filterElement\<close> in
  the second only). The remaining fields record what the JavaScript run time holds for
  the composable: the promises of \<open>loadModel\<close> and \<open>getUserMedia\<close> still pending, the
  number of registered video frame callbacks, the number of detection calls that have
  not resolved yet, the continuations of \<open>addLandmarks\<close> suspended at their \<open>await\<close>
  (each with the value it awaits), and the lines written by \<open>console.log\<close>.
\<close>

record camera =
  modelLoaded :: bool
  videoElement :: "video option"
  canvasRawElement :: "canvas option"
  canvasElement :: "canvas option"
  filterElement :: "filter_element option"
  sizeRef :: "nat \<times> nat"
  detections :: "detection option"
  mood :: int
  previousLandmarkDrawn :: bool
  previousDetectionFinished :: bool
  loadModelPending :: bool
  getUserMediaPending :: bool
  frameCallbacks :: nat
  detectionsInFlight :: nat
  landmarkWaiters :: "detection option list"
  consoleLog :: "string list"

subsection \<open>Rendering a number inside a template literal\<close>

text \<open>
  \<open>${mood.value}\<close> prints an integral number in decimal, with a leading minus sign
  when negative (for magnitudes below \<open>10^21\<close>, far above any value met here).
\<close>

definition digitChar :: "nat \<Rightarrow> char" where
  "digitChar d = ''0123456789'' ! (d mod 10)"

fun showNat :: "nat \<Rightarrow> string" where
  "showNat n = (if n < 10 then [digitChar n] else showNat (n div 10) @ [digitChar n])"

declare showNat.simps [simp del]

definition showNumber :: "int \<Rightarrow> string" where
  "showNumber i = (if i < 0 then CHR ''-'' # showNat (nat (- i)) else showNat (nat i))"

subsection \<open>Routines shared by both variants\<close>

text \<open>\<open>getContext\<close>: the 2D context of a canvas, or \<open>undefined\<close>.\<close>

definition getContext :: "canvas option \<Rightarrow> unit option" where
  "getContext c =
     (case c of
        None \<Rightarrow> None
      | Some cv \<Rightarrow> if \<not> context2d cv then None else Some ())"

text \<open>The computed cells \<open>ctx\<close> and \<open>ctxRaw\<close>.\<close>

definition ctx :: "camera \<Rightarrow> unit option" where
  "ctx s = getContext (canvasElement s)"

definition ctxRaw :: "camera \<Rightarrow> unit option" where
  "ctxRaw s = getContext (canvasRawElement s)"

text \<open>
  \<open>detectFaces\<close> up to its \<open>await\<close>: four guards, then the detection call is issued.
  The assignment to \<open>detections.value\<close> happens when the call resolves
  (\<open>detectFaces_resolved\<close>); a call that rejects assigns nothing
  (\<open>detectFaces_rejected\<close>).
\<close>

definition detectFaces :: "camera \<Rightarrow> camera" where
  "detectFaces s =
     (if \<not> modelLoaded s then s
      else case videoElement s of
        None \<Rightarrow> s
      | Some v \<Rightarrow>
          if paused v \<or> ended v then s
          else if \<not> previousDetectionFinished s then s
          else s\<lparr>detectionsInFlight := detectionsInFlight s + 1\<rparr>)"

definition detectFaces_resolved :: "detection option \<Rightarrow> camera \<Rightarrow> camera" where
  "detectFaces_resolved r s =
     s\<lparr>detections := r, detectionsInFlight := detectionsInFlight s - 1\<rparr>"

definition detectFaces_rejected :: "camera \<Rightarrow> camera" where
  "detectFaces_rejected s = s\<lparr>detectionsInFlight := detectionsInFlight s - 1\<rparr>"

text \<open>
  \<open>addLandmarks\<close> up to its \<open>await\<close>: two guards, then \<open>detections.value\<close> is read
  and awaited. The cell holds a plain value, never a promise, so the continuation
  \<open>addLandmarks_resume\<close> runs as a microtask, right after the task that called
  \<open>addLandmarks\<close> (\<open>runMicrotasks\<close>).
\<close>

definition addLandmarks :: "camera \<Rightarrow> camera" where
  "addLandmarks s =
     (if canvasElement s = None then s
      else if \<not> previousLandmarkDrawn s then s
      else s\<lparr>landmarkWaiters := landmarkWaiters s @ [detections s]\<rparr>)"

definition drawFaceLandmarks :: "landmark_points \<Rightarrow> camera \<Rightarrow> camera" where
  "drawFaceLandmarks pts s =
     (case canvasElement s of
        None \<Rightarrow> s
      | Some c \<Rightarrow> s\<lparr>canvasElement := Some (c\<lparr>drawnLandmarks := drawnLandmarks c @ [pts]\<rparr>)\<rparr>)"

definition addLandmarks_resume :: "detection option \<Rightarrow> camera \<Rightarrow> camera" where
  "addLandmarks_resume l s =
     (let s1 = (case l of
                  None \<Rightarrow> s
                | Some d \<Rightarrow> (case landmarks d of
                               None \<Rightarrow> s
                             | Some pts \<Rightarrow> drawFaceLandmarks pts s))
      in s1\<lparr>previousLandmarkDrawn := True\<rparr>)"

definition runMicrotasks :: "camera \<Rightarrow> camera" where
  "runMicrotasks s =
     foldl (\<lambda>a l. addLandmarks_resume l a) (s\<lparr>landmarkWaiters := []\<rparr>) (landmarkWaiters s)"

text \<open>The assignment \<open>canvasElement.value.style.filter = f\<close>.\<close>

definition setStyleFilter :: "string \<Rightarrow> camera \<Rightarrow> camera" where
  "setStyleFilter f s =
     (case canvasElement s of
        None \<Rightarrow> s
      | Some c \<Rightarrow> s\<lparr>canvasElement := Some (c\<lparr>style_filter := f\<rparr>)\<rparr>)"

subsection \<open>Second variant\<close>

text \<open>\<open>resizeCanvas\<close>, lines 289-294.\<close>

definition resizeCanvas_v2 :: "nat \<times> nat \<Rightarrow> camera \<Rightarrow> camera" where
  "resizeCanvas_v2 sz s =
     (case canvasElement s of
        None \<Rightarrow> s
      | Some c \<Rightarrow> s\<lparr>canvasElement := Some (c\<lparr>width := fst sz, height := snd sz\<rparr>)\<rparr>)"

text \<open>
  \<open>updateMood\<close>, lines 260-287. The \<open>switch\<close> is the chain of comparisons below, in the
  order of its cases; \<open>mood.value += 10\<close> and \<open>mood.value -= 5\<close> both store and yield
  the new value, which the enclosing assignment stores again.
\<close>

definition updateMood :: "camera \<Rightarrow> camera" where
  "updateMood s =
     (case detections s of
        None \<Rightarrow> s
      | Some d \<Rightarrow>
          (case sortedExpressions d of
             [] \<Rightarrow> s
           | e # _ \<Rightarrow>
               (let s1 =
                  (if expression e = ''happy'' then
                     s\<lparr>mood := (if mood s < 180 then mood s + 10 else 180)\<rparr>
                   else if expression e = ''neutral'' then
                     s\<lparr>mood := (if mood s > 0 then mood s - 5 else 0)\<rparr>
                   else if expression e = ''sad'' then s\<lparr>mood := 0\<rparr>
                   else if expression e = ''angry'' then s\<lparr>mood := 0\<rparr>
                   else s\<lparr>consoleLog := consoleLog s @ [expression e]\<rparr>)
                in case filterElement s1 of
                     None \<Rightarrow> s1
                   | Some f \<Rightarrow>
                       s1\<lparr>filterElement :=
                            Some (f\<lparr>style_background :=
                                      Some (Rgb 250 150 150 (of_int (mood s1) / 180))\<rparr>)\<rparr>)))"

text \<open>\<open>handleStream\<close>, lines 198-205.\<close>

definition handleStream_v2 :: "camera \<Rightarrow> camera" where
  "handleStream_v2 s =
     (case videoElement s of
        None \<Rightarrow> s
      | Some v \<Rightarrow>
          if canvasElement s = None then s
          else s\<lparr>frameCallbacks := frameCallbacks s + 1,
                 videoElement := Some (v\<lparr>srcObject := True, playCalled := True\<rparr>)\<rparr>)"

text \<open>
  \<open>frameCallback\<close>, lines 207-225, for a frame whose metadata reports the pixel size
  \<open>(w, h)\<close>.
\<close>

definition frameCallback_v2 :: "nat \<times> nat \<Rightarrow> camera \<Rightarrow> camera" where
  "frameCallback_v2 metadata s =
     (if ctx s = None \<or> videoElement s = None \<or> canvasElement s = None then s
      else
        let s1 = s\<lparr>sizeRef := (fst metadata, snd metadata)\<rparr>;
            s2 = resizeCanvas_v2 (sizeRef s1) s1;
            s3 = detectFaces s2;
            s4 = addLandmarks s3;
            s5 = updateMood s4;
            s6 = setStyleFilter (''hue-rotate('' @ showNumber (mood s5) @ ''deg)'') s5
        in s6\<lparr>frameCallbacks := frameCallbacks s6 + 1\<rparr>)"

subsection \<open>First variant\<close>

text \<open>\<open>resizeCanvas\<close>, lines 126-133: both canvases are needed, both are resized.\<close>

definition resizeCanvas_v1 :: "nat \<times> nat \<Rightarrow> camera \<Rightarrow> camera" where
  "resizeCanvas_v1 sz s =
     (case canvasElement s of
        None \<Rightarrow> s
      | Some c \<Rightarrow>
          (case canvasRawElement s of
             None \<Rightarrow> s
           | Some r \<Rightarrow>
               s\<lparr>canvasElement := Some (c\<lparr>width := fst sz, height := snd sz\<rparr>),
                 canvasRawElement := Some (r\<lparr>width := fst sz, height := snd sz\<rparr>)\<rparr>))"

text \<open>\<open>ctxRaw.value.drawImage(videoElement.value, 0, 0)\<close>.\<close>

definition drawImage :: "camera \<Rightarrow> camera" where
  "drawImage s =
     (case canvasRawElement s of
        None \<Rightarrow> s
      | Some r \<Rightarrow> s\<lparr>canvasRawElement := Some (r\<lparr>drawnImages := drawnImages r + 1\<rparr>)\<rparr>)"

text \<open>
  \<open>handleImage\<close>, lines 83-91. It is declared \<open>async\<close> but awaits nothing, so it runs
  to its end inside the frame callback.
\<close>

definition handleImage :: "camera \<Rightarrow> camera" where
  "handleImage s =
     (if ctx s = None \<or> ctxRaw s = None \<or> canvasElement s = None then s
      else
        let s1 = detectFaces s;
            s2 = addLandmarks s1
        in setStyleFilter
             (''sepia(1) saturate(4) hue-rotate('' @ showNumber (mood s2) @ ''deg)'') s2)"

text \<open>\<open>handleStream\<close>, lines 51-63.\<close>

definition handleStream_v1 :: "camera \<Rightarrow> camera" where
  "handleStream_v1 s =
     (case videoElement s of
        None \<Rightarrow> s
      | Some v \<Rightarrow>
          if canvasRawElement s = None \<or> canvasElement s = None then s
          else s\<lparr>frameCallbacks := frameCallbacks s + 1,
                 videoElement := Some (v\<lparr>srcObject := True, playCalled := True\<rparr>)\<rparr>)"

text \<open>\<open>frameCallback\<close>, lines 65-81.\<close>

definition frameCallback_v1 :: "nat \<times> nat \<Rightarrow> camera \<Rightarrow> camera" where
  "frameCallback_v1 metadata s =
     (if ctxRaw s = None \<or> videoElement s = None \<or> canvasRawElement s = None then s
      else
        let s1 = s\<lparr>sizeRef := (fst metadata, snd metadata)\<rparr>;
            s2 = resizeCanvas_v1 (sizeRef s1) s1;
            s3 = drawImage s2;
            s4 = handleImage s3
        in s4\<lparr>frameCallbacks := frameCallbacks s4 + 1\<rparr>)"

subsection \<open>The composable as a transition system\<close>

text \<open>
  What can happen to a mounted composable: the models finish loading (or fail to), the
  camera stream arrives (or is refused), the video element changes its \<open>paused\<close> and
  \<open>ended\<close> attributes, a registered frame callback fires with the size of the frame,
  and an outstanding detection call resolves (with a face or without) or rejects.
  An event that is not enabled leaves the state as it is.
\<close>

datatype event =
    ModelsLoaded
  | ModelsFailed
  | StreamAcquired
  | StreamRefused
  | VideoStatus bool bool
  | VideoFrame nat nat
  | DetectionResolved "detection option"
  | DetectionRejected

fun fire :: "(camera \<Rightarrow> camera) \<Rightarrow> (nat \<times> nat \<Rightarrow> camera \<Rightarrow> camera) \<Rightarrow> event \<Rightarrow> camera \<Rightarrow> camera" where
  "fire hs fc ModelsLoaded s =
     (if loadModelPending s then s\<lparr>modelLoaded := True, loadModelPending := False\<rparr> else s)"
| "fire hs fc ModelsFailed s =
     (if loadModelPending s then s\<lparr>loadModelPending := False\<rparr> else s)"
| "fire hs fc StreamAcquired s =
     (if getUserMediaPending s then hs (s\<lparr>getUserMediaPending := False\<rparr>) else s)"
| "fire hs fc StreamRefused s =
     (if getUserMediaPending s then s\<lparr>getUserMediaPending := False\<rparr> else s)"
| "fire hs fc (VideoStatus p e) s =
     (case videoElement s of
        None \<Rightarrow> s
      | Some v \<Rightarrow> s\<lparr>videoElement := Some (v\<lparr>paused := p, ended := e\<rparr>)\<rparr>)"
| "fire hs fc (VideoFrame w h) s =
     (if frameCallbacks s = 0 then s
      else runMicrotasks (fc (w, h) (s\<lparr>frameCallbacks := frameCallbacks s - 1\<rparr>)))"
| "fire hs fc (DetectionResolved r) s =
     (if detectionsInFlight s = 0 then s else detectFaces_resolved r s)"
| "fire hs fc DetectionRejected s =
     (if detectionsInFlight s = 0 then s else detectFaces_rejected s)"

definition fire_v1 :: "event \<Rightarrow> camera \<Rightarrow> camera" where
  "fire_v1 = fire handleStream_v1 frameCallback_v1"

definition fire_v2 :: "event \<Rightarrow> camera \<Rightarrow> camera" where
  "fire_v2 = fire handleStream_v2 frameCallback_v2"

definition run_v1 :: "event list \<Rightarrow> camera \<Rightarrow> camera" where
  "run_v1 es s = foldl (\<lambda>a e. fire_v1 e a) s es"

definition run_v2 :: "event list \<Rightarrow> camera \<Rightarrow> camera" where
  "run_v2 es s = foldl (\<lambda>a e. fire_v2 e a) s es"

text \<open>
  The state right after \<open>onMounted\<close> has called \<open>loadModel\<close> and \<open>loadCamera\<close>, for the
  elements the template bound to the element cells. The first variant starts with
  \<open>mood = 0\<close> (line 29), the second with \<open>mood = 180\<close> (line 176).
\<close>

definition mounted :: "int \<Rightarrow> video option \<Rightarrow> canvas option \<Rightarrow> canvas option \<Rightarrow> filter_element option \<Rightarrow> camera" where
  "mounted m v r c f =
     \<lparr>modelLoaded = False, videoElement = v, canvasRawElement = r, canvasElement = c,
      filterElement = f, sizeRef = (0, 0), detections = None, mood = m,
      previousLandmarkDrawn = True, previousDetectionFinished = True,
      loadModelPending = True, getUserMediaPending = True, frameCallbacks = 0,
      detectionsInFlight = 0, landmarkWaiters = [], consoleLog = []\<rparr>"

definition init_v1 :: "video option \<Rightarrow> canvas option \<Rightarrow> canvas option \<Rightarrow> camera" where
  "init_v1 v r c = mounted 0 v r c None"

definition init_v2 :: "video option \<Rightarrow> canvas option \<Rightarrow> filter_element option \<Rightarrow> camera" where
  "init_v2 v c f = mounted 180 v None c f"

subsection \<open>Concrete elements and detection results used in the examples\<close>

definition aVideo :: video where
  "aVideo = \<lparr>paused = True, ended = False, srcObject = False, playCalled = False\<rparr>"

definition aCanvas :: canvas where
  "aCanvas = \<lparr>width = 300, height = 150, context2d = True, style_filter = [],
              drawnImages = 0, drawnLandmarks = []\<rparr>"

definition anOverlay :: filter_element where
  "anOverlay = \<lparr>style_background = None\<rparr>"

definition face :: "string \<Rightarrow> detection" where
  "face l = \<lparr>landmarks = Some [(10, 20)],
             sortedExpressions = [\<lparr>expression = l, probability = 9 / 10\<rparr>,
                                  \<lparr>expression = ''fearful'', probability = 1 / 10\<rparr>]\<rparr>"

text \<open>
  The label the source switches on: \<open>expression\<close> of the first entry of the sorted
  array of the stored detection result, if there is one.
\<close>

definition topExpression :: "camera \<Rightarrow> string option" where
  "topExpression s =
     (case detections s of
        None \<Rightarrow> None
      | Some d \<Rightarrow> (case sortedExpressions d of [] \<Rightarrow> None | e # _ \<Rightarrow> Some (expression e)))"

text \<open>A state of the second variant with a given mood and a stored face of a given top label.\<close>

definition moodAt :: "int \<Rightarrow> string \<Rightarrow> camera" where
  "moodAt m l =
     (init_v2 (Some aVideo) (Some aCanvas) (Some anOverlay))
       \<lparr>mood := m, detections := Some (face l)\<rparr>"

text \<open>The start of a session: models loaded, stream attached, video playing.\<close>

definition playing :: "event list" where
  "playing = [ModelsLoaded, StreamAcquired, VideoStatus False False]"

text \<open>The pixel size of the visible canvas and of the raw canvas.\<close>

definition canvasSize :: "camera \<Rightarrow> (nat \<times> nat) option" where
  "canvasSize s = map_option (\<lambda>c. (width c, height c)) (canvasElement s)"

definition canvasRawSize :: "camera \<Rightarrow> (nat \<times> nat) option" where
  "canvasRawSize s = map_option (\<lambda>c. (width c, height c)) (canvasRawElement s)"

text \<open>A run of per-frame resize calls, one per reported size.\<close>

definition resizeAll_v1 :: "(nat \<times> nat) list \<Rightarrow> camera \<Rightarrow> camera" where
  "resizeAll_v1 szs s = foldl (\<lambda>a sz. resizeCanvas_v1 sz a) s szs"

definition resizeAll_v2 :: "(nat \<times> nat) list \<Rightarrow> camera \<Rightarrow> camera" where
  "resizeAll_v2 szs s = foldl (\<lambda>a sz. resizeCanvas_v2 sz a) s szs"

text \<open>
  The values the mood of the second variant can take: the multiples of five from 0 to
  185 (see \<open>run_v2_moodOk\<close> below).
\<close>

definition moodOk :: "int \<Rightarrow> bool" where
  "moodOk m = (0 \<le> m \<and> m \<le> 185 \<and> m mod 5 = 0)"

text \<open>Two mounted sessions, one per variant, and a session that sees a neutral, then a happy face.\<close>

definition session_v1 :: camera where
  "session_v1 = init_v1 (Some aVideo) (Some aCanvas) (Some aCanvas)"

definition session_v2 :: camera where
  "session_v2 = init_v2 (Some aVideo) (Some aCanvas) (Some anOverlay)"

definition overshoot :: "event list" where
  "overshoot =
     playing @
     [VideoFrame 640 480, DetectionResolved (Some (face ''neutral'')),
      VideoFrame 640 480, DetectionResolved (Some (face ''happy'')),
      VideoFrame 640 480]"

text \<open>
  Two sessions that end with a neutral face stored: one with the mood still at 180, one
  after a sad face has brought the mood to 0.
\<close>

definition neutralAtMax :: "event list" where
  "neutralAtMax =
     playing @ [VideoFrame 640 480, DetectionResolved (Some (face ''neutral''))]"

definition neutralAtMin :: "event list" where
  "neutralAtMin =
     playing @
     [VideoFrame 640 480, DetectionResolved (Some (face ''sad'')),
      VideoFrame 640 480, DetectionResolved (Some (face ''neutral''))]"

lemmas eval_defs =
  moodAt_def init_v2_def init_v1_def mounted_def face_def anOverlay_def aVideo_def aCanvas_def
  topExpression_def playing_def overshoot_def session_v1_def session_v2_def

section \<open>What each routine leaves alone\<close>

lemma detectFaces_keeps [simp]:
  "mood (detectFaces s) = mood s"
  "previousDetectionFinished (detectFaces s) = previousDetectionFinished s"
  "previousLandmarkDrawn (detectFaces s) = previousLandmarkDrawn s"
  "canvasElement (detectFaces s) = canvasElement s"
  "canvasRawElement (detectFaces s) = canvasRawElement s"
  "detections (detectFaces s) = detections s"
  by (simp_all add: detectFaces_def split: option.splits)

lemma detectFaces_resolved_keeps [simp]:
  "mood (detectFaces_resolved r s) = mood s"
  "previousDetectionFinished (detectFaces_resolved r s) = previousDetectionFinished s"
  "previousLandmarkDrawn (detectFaces_resolved r s) = previousLandmarkDrawn s"
  by (simp_all add: detectFaces_resolved_def)

lemma detectFaces_rejected_keeps [simp]:
  "mood (detectFaces_rejected s) = mood s"
  "previousDetectionFinished (detectFaces_rejected s) = previousDetectionFinished s"
  "previousLandmarkDrawn (detectFaces_rejected s) = previousLandmarkDrawn s"
  by (simp_all add: detectFaces_rejected_def)

lemma addLandmarks_keeps [simp]:
  "mood (addLandmarks s) = mood s"
  "previousDetectionFinished (addLandmarks s) = previousDetectionFinished s"
  "previousLandmarkDrawn (addLandmarks s) = previousLandmarkDrawn s"
  "canvasElement (addLandmarks s) = canvasElement s"
  "canvasRawElement (addLandmarks s) = canvasRawElement s"
  "detections (addLandmarks s) = detections s"
  by (simp_all add: addLandmarks_def)

lemma drawFaceLandmarks_keeps [simp]:
  "mood (drawFaceLandmarks pts s) = mood s"
  "previousDetectionFinished (drawFaceLandmarks pts s) = previousDetectionFinished s"
  "previousLandmarkDrawn (drawFaceLandmarks pts s) = previousLandmarkDrawn s"
  by (simp_all add: drawFaceLandmarks_def split: option.splits)

lemma addLandmarks_resume_keeps [simp]:
  "mood (addLandmarks_resume l s) = mood s"
  "previousDetectionFinished (addLandmarks_resume l s) = previousDetectionFinished s"
  "previousLandmarkDrawn (addLandmarks_resume l s)"
  by (simp_all add: addLandmarks_resume_def split: option.splits)

lemma resume_all_keeps:
  "mood (foldl (\<lambda>a l. addLandmarks_resume l a) s ls) = mood s"
  "previousDetectionFinished (foldl (\<lambda>a l. addLandmarks_resume l a) s ls)
     = previousDetectionFinished s"
  "previousLandmarkDrawn s \<Longrightarrow> previousLandmarkDrawn (foldl (\<lambda>a l. addLandmarks_resume l a) s ls)"
  by (induction ls arbitrary: s) simp_all

lemma runMicrotasks_keeps [simp]:
  "mood (runMicrotasks s) = mood s"
  "previousDetectionFinished (runMicrotasks s) = previousDetectionFinished s"
  "previousLandmarkDrawn s \<Longrightarrow> previousLandmarkDrawn (runMicrotasks s)"
  by (simp_all add: runMicrotasks_def resume_all_keeps)

lemma setStyleFilter_keeps [simp]:
  "mood (setStyleFilter f s) = mood s"
  "previousDetectionFinished (setStyleFilter f s) = previousDetectionFinished s"
  "previousLandmarkDrawn (setStyleFilter f s) = previousLandmarkDrawn s"
  by (simp_all add: setStyleFilter_def split: option.splits)

lemma resizeCanvas_v2_keeps [simp]:
  "mood (resizeCanvas_v2 sz s) = mood s"
  "previousDetectionFinished (resizeCanvas_v2 sz s) = previousDetectionFinished s"
  "previousLandmarkDrawn (resizeCanvas_v2 sz s) = previousLandmarkDrawn s"
  by (simp_all add: resizeCanvas_v2_def split: option.splits)

lemma resizeCanvas_v1_keeps [simp]:
  "mood (resizeCanvas_v1 sz s) = mood s"
  "previousDetectionFinished (resizeCanvas_v1 sz s) = previousDetectionFinished s"
  "previousLandmarkDrawn (resizeCanvas_v1 sz s) = previousLandmarkDrawn s"
  by (simp_all add: resizeCanvas_v1_def split: option.splits)

lemma drawImage_keeps [simp]:
  "mood (drawImage s) = mood s"
  "previousDetectionFinished (drawImage s) = previousDetectionFinished s"
  "previousLandmarkDrawn (drawImage s) = previousLandmarkDrawn s"
  by (simp_all add: drawImage_def split: option.splits)

lemma handleImage_keeps [simp]:
  "mood (handleImage s) = mood s"
  "previousDetectionFinished (handleImage s) = previousDetectionFinished s"
  "previousLandmarkDrawn (handleImage s) = previousLandmarkDrawn s"
  by (simp_all add: handleImage_def Let_def)

lemma handleStream_v1_keeps [simp]:
  "mood (handleStream_v1 s) = mood s"
  "previousDetectionFinished (handleStream_v1 s) = previousDetectionFinished s"
  "previousLandmarkDrawn (handleStream_v1 s) = previousLandmarkDrawn s"
  by (simp_all add: handleStream_v1_def split: option.splits)

lemma handleStream_v2_keeps [simp]:
  "mood (handleStream_v2 s) = mood s"
  "previousDetectionFinished (handleStream_v2 s) = previousDetectionFinished s"
  "previousLandmarkDrawn (handleStream_v2 s) = previousLandmarkDrawn s"
  by (simp_all add: handleStream_v2_def split: option.splits)

lemma frameCallback_v1_keeps [simp]:
  "mood (frameCallback_v1 md s) = mood s"
  "previousDetectionFinished (frameCallback_v1 md s) = previousDetectionFinished s"
  "previousLandmarkDrawn (frameCallback_v1 md s) = previousLandmarkDrawn s"
  by (simp_all add: frameCallback_v1_def Let_def)

lemma updateMood_mood:
  "mood (updateMood s) =
     (case topExpression s of
        None \<Rightarrow> mood s
      | Some l \<Rightarrow>
          if l = ''happy'' then (if mood s < 180 then mood s + 10 else 180)
          else if l = ''neutral'' then (if mood s > 0 then mood s - 5 else 0)
          else if l = ''sad'' \<or> l = ''angry'' then 0
          else mood s)"
  by (simp add: updateMood_def topExpression_def Let_def split: option.splits list.splits)

lemma updateMood_keeps [simp]:
  "previousDetectionFinished (updateMood s) = previousDetectionFinished s"
  "previousLandmarkDrawn (updateMood s) = previousLandmarkDrawn s"
  by (simp_all add: updateMood_def Let_def split: option.splits list.splits)

lemma frameCallback_v2_keeps [simp]:
  "previousDetectionFinished (frameCallback_v2 md s) = previousDetectionFinished s"
  "previousLandmarkDrawn (frameCallback_v2 md s) = previousLandmarkDrawn s"
  by (simp_all add: frameCallback_v2_def Let_def)

lemma moodOk_steps:
  "moodOk m \<Longrightarrow> moodOk (if m < 180 then m + 10 else 180)"
  "moodOk m \<Longrightarrow> moodOk (if m > 0 then m - 5 else 0)"
  "moodOk 0"
  unfolding moodOk_def by presburger+

lemma updateMood_moodOk:
  assumes ok: "moodOk (mood s)"
  shows "moodOk (mood (updateMood s))"
proof (cases "topExpression s")
  case None
  with ok show ?thesis
    by (simp add: updateMood_mood)
next
  case (Some l)
  consider "l = ''happy''" | "l = ''neutral''" | "l = ''sad'' \<or> l = ''angry''"
    | "l \<noteq> ''happy''" "l \<noteq> ''neutral''" "l \<noteq> ''sad''" "l \<noteq> ''angry''"
    by blast
  then show ?thesis
  proof cases
    case 1
    with Some moodOk_steps(1) [OF ok] show ?thesis
      by (simp add: updateMood_mood)
  next
    case 2
    with Some moodOk_steps(2) [OF ok] show ?thesis
      by (simp add: updateMood_mood)
  next
    case 3
    with Some moodOk_steps(3) show ?thesis
      by (auto simp add: updateMood_mood)
  next
    case 4
    with Some ok show ?thesis
      by (simp add: updateMood_mood)
  qed
qed

lemma frameCallback_v2_moodOk:
  "moodOk (mood s) \<Longrightarrow> moodOk (mood (frameCallback_v2 md s))"
  using updateMood_moodOk [of "addLandmarks (detectFaces (resizeCanvas_v2 (fst md, snd md) (s\<lparr>sizeRef := (fst md, snd md)\<rparr>)))"]
  by (simp add: frameCallback_v2_def Let_def)

lemma fire_v1_keeps:
  "mood (fire_v1 e s) = mood s"
  "previousDetectionFinished (fire_v1 e s) = previousDetectionFinished s"
  "previousLandmarkDrawn s \<Longrightarrow> previousLandmarkDrawn (fire_v1 e s)"
  by (cases e; simp add: fire_v1_def split: option.splits)+

lemma fire_v2_keeps:
  "previousDetectionFinished (fire_v2 e s) = previousDetectionFinished s"
  "previousLandmarkDrawn s \<Longrightarrow> previousLandmarkDrawn (fire_v2 e s)"
  "moodOk (mood s) \<Longrightarrow> moodOk (mood (fire_v2 e s))"
  by (cases e; simp add: fire_v2_def frameCallback_v2_moodOk split: option.splits)+

lemma run_v1_keeps:
  "mood (run_v1 es s) = mood s"
  "previousDetectionFinished (run_v1 es s) = previousDetectionFinished s"
  "previousLandmarkDrawn s \<Longrightarrow> previousLandmarkDrawn (run_v1 es s)"
  unfolding run_v1_def
  by (induction es arbitrary: s) (simp_all add: fire_v1_keeps)

lemma run_v2_keeps:
  "previousDetectionFinished (run_v2 es s) = previousDetectionFinished s"
  "previousLandmarkDrawn s \<Longrightarrow> previousLandmarkDrawn (run_v2 es s)"
  "moodOk (mood s) \<Longrightarrow> moodOk (mood (run_v2 es s))"
  unfolding run_v2_def
  by (induction es arbitrary: s) (simp_all add: fire_v2_keeps)

lemma showNumber_0: "showNumber 0 = ''0''"
  by (simp add: showNumber_def showNat.simps digitChar_def)

lemma ctx_canvas: "ctx s \<noteq> None \<Longrightarrow> canvasElement s \<noteq> None"
  by (auto simp add: ctx_def getContext_def split: option.splits)

lemma resizeCanvas_v2_size:
  "canvasElement s \<noteq> None \<Longrightarrow> canvasSize (resizeCanvas_v2 sz s) = Some sz"
  by (auto simp add: resizeCanvas_v2_def canvasSize_def)

lemma resizeCanvas_v1_size:
  "canvasElement s \<noteq> None \<Longrightarrow> canvasRawElement s \<noteq> None \<Longrightarrow>
     canvasSize (resizeCanvas_v1 sz s) = Some sz \<and> canvasRawSize (resizeCanvas_v1 sz s) = Some sz"
  by (auto simp add: resizeCanvas_v1_def canvasSize_def canvasRawSize_def)

lemma resizeCanvas_v2_present:
  "canvasElement s \<noteq> None \<Longrightarrow> canvasElement (resizeCanvas_v2 sz s) \<noteq> None"
  by (auto simp add: resizeCanvas_v2_def)

lemma resizeCanvas_v1_present:
  "canvasElement s \<noteq> None \<and> canvasRawElement s \<noteq> None \<Longrightarrow>
     canvasElement (resizeCanvas_v1 sz s) \<noteq> None \<and> canvasRawElement (resizeCanvas_v1 sz s) \<noteq> None"
  by (auto simp add: resizeCanvas_v1_def)

lemma resizeAll_v2_present:
  "canvasElement s \<noteq> None \<Longrightarrow> canvasElement (resizeAll_v2 szs s) \<noteq> None"
  unfolding resizeAll_v2_def
proof (induction szs arbitrary: s)
  case Nil
  then show ?case by simp
next
  case (Cons sz szs)
  from Cons.IH [OF resizeCanvas_v2_present [OF Cons.prems]] show ?case
    by simp
qed

lemma resizeAll_v1_present:
  "canvasElement s \<noteq> None \<and> canvasRawElement s \<noteq> None \<Longrightarrow>
     canvasElement (resizeAll_v1 szs s) \<noteq> None \<and> canvasRawElement (resizeAll_v1 szs s) \<noteq> None"
  unfolding resizeAll_v1_def
proof (induction szs arbitrary: s)
  case Nil
  then show ?case by simp
next
  case (Cons sz szs)
  from Cons.IH [OF resizeCanvas_v1_present [OF Cons.prems]] show ?case
    by simp
qed

lemma resizeAll_snoc:
  "resizeAll_v1 (szs @ [sz]) s = resizeCanvas_v1 sz (resizeAll_v1 szs s)"
  "resizeAll_v2 (szs @ [sz]) s = resizeCanvas_v2 sz (resizeAll_v2 szs s)"
  by (simp_all add: resizeAll_v1_def resizeAll_v2_def)

lemma run_v2_moodOk: "moodOk (mood (run_v2 es (init_v2 v c f)))"
  by (rule run_v2_keeps) (simp add: init_v2_def mounted_def moodOk_def)

lemma updateMood_happy_away_from_MAX:
  "topExpression s = Some ''happy'' \<Longrightarrow> mood s \<le> 170 \<or> 180 \<le> mood s \<Longrightarrow>
     mood (updateMood s) = min (mood s + 10) 180"
  by (auto simp add: updateMood_mood)

lemma moodOk_zero_or_step: "moodOk m \<Longrightarrow> m = 0 \<or> 5 \<le> m"
  unfolding moodOk_def by presburger

section \<open>The claims\<close>

text \<open>
  C1. Claimed: for every mood m in [0, 180], a frame whose top-ranked expression is
  "happy" yields min (m + 10) 180. The source tests \<open>mood.value < 180\<close> before it adds
  10, so from m = 175 (top label "happy") the new mood is 185, above the bound the
  \<open>else\<close> branch of the same line enforces.
\<close>

theorem updateMood_happy_overshoots_at_175:
  "topExpression (moodAt 175 ''happy'') = Some ''happy''
   \<and> mood (moodAt 175 ''happy'') = 175
   \<and> mood (updateMood (moodAt 175 ''happy'')) = 185"
  by (simp add: eval_defs updateMood_mood)

text \<open>
  C2. Claimed: from the initial mood, every sequence of frames keeps the mood within
  [0, 180]. A session of the second variant that sees a neutral face (180 to 175) and
  then a happy face (175 to 185) leaves the range.
\<close>

theorem mood_reaches_185:
  "mood (run_v2 overshoot session_v2) = 185"
  by code_simp

text \<open>
  C3. Claimed: a call of \<open>detectFaces\<close> made while a detection is still in flight does
  not start a second one. After one frame of a playing session one detection call is
  outstanding and \<open>previousDetectionFinished\<close> is still true; the next frame, with no
  detection resolved in between, issues a second call.
\<close>

theorem second_detection_starts_in_flight:
  "detectionsInFlight (run_v2 (playing @ [VideoFrame 640 480]) session_v2) = 1
   \<and> previousDetectionFinished (run_v2 (playing @ [VideoFrame 640 480]) session_v2)
   \<and> detectionsInFlight (run_v2 (playing @ [VideoFrame 640 480, VideoFrame 640 480]) session_v2) = 2"
  by code_simp

text \<open>
  C4. In every state the second variant can reach, whatever the events that led to it, a
  frame whose top-ranked expression is "neutral" takes the mood m to max (m - 5) 0; in
  particular a mood of 0 stays 0. (The mood is private to the composable, starts at 180
  and moves by -5, by +10 or to 0, so it is always a multiple of five: the test
  \<open>mood.value > 0\<close> before the subtraction never meets a value between 0 and 5.)
\<close>

theorem updateMood_neutral_clamped:
  assumes "s = run_v2 es (init_v2 v c f)"
    and "topExpression s = Some ''neutral''"
  shows "mood (updateMood s) = max (mood s - 5) 0
    \<and> (mood s = 0 \<longrightarrow> mood (updateMood s) = 0)"
proof -
  from assms(1) have "moodOk (mood s)"
    by (simp add: run_v2_moodOk)
  then have "mood s = 0 \<or> 5 \<le> mood s"
    by (rule moodOk_zero_or_step)
  with assms(2) show ?thesis
    by (auto simp add: updateMood_mood)
qed

theorem updateMood_neutral_clamped_witness:
  "topExpression (run_v2 neutralAtMax session_v2) = Some ''neutral''
   \<and> mood (run_v2 neutralAtMax session_v2) = 180
   \<and> mood (updateMood (run_v2 neutralAtMax session_v2)) = 175
   \<and> topExpression (run_v2 neutralAtMin session_v2) = Some ''neutral''
   \<and> mood (run_v2 neutralAtMin session_v2) = 0
   \<and> mood (updateMood (run_v2 neutralAtMin session_v2)) = 0"
proof -
  have a: "topExpression (run_v2 neutralAtMax session_v2) = Some ''neutral''"
    by code_simp
  have b: "mood (run_v2 neutralAtMax session_v2) = 180"
    by code_simp
  have c: "topExpression (run_v2 neutralAtMin session_v2) = Some ''neutral''"
    by code_simp
  have d: "mood (run_v2 neutralAtMin session_v2) = 0"
    by code_simp
  have e: "session_v2 = init_v2 (Some aVideo) (Some aCanvas) (Some anOverlay)"
    by (simp add: session_v2_def)
  from updateMood_neutral_clamped [OF refl a [unfolded e], folded e]
    updateMood_neutral_clamped [OF refl c [unfolded e], folded e] a b c d
  show ?thesis
    by simp
qed

text \<open>
  C5. For every mood m, a frame whose top-ranked expression is "sad" or "angry" sets the
  mood to 0.
\<close>

theorem updateMood_sad_angry_resets:
  "topExpression s = Some l \<Longrightarrow> l = ''sad'' \<or> l = ''angry'' \<Longrightarrow> mood (updateMood s) = 0"
  by (auto simp add: updateMood_mood)

theorem updateMood_sad_angry_resets_witness:
  "topExpression (moodAt 180 ''angry'') = Some ''angry''
   \<and> (''angry'' = ''sad'' \<or> ''angry'' = ''angry'')
   \<and> mood (moodAt 180 ''angry'') = 180
   \<and> mood (updateMood (moodAt 180 ''angry'')) = 0"
proof -
  have a: "topExpression (moodAt 180 ''angry'') = Some ''angry''"
    by (simp add: eval_defs)
  have b: "''angry'' = ''sad'' \<or> ''angry'' = ''angry''"
    by simp
  have c: "mood (moodAt 180 ''angry'') = 180"
    by (simp add: eval_defs)
  from updateMood_sad_angry_resets [OF a b] a c show ?thesis
    by simp
qed

text \<open>
  C6. While \<open>previousLandmarkDrawn\<close> is false, \<open>addLandmarks\<close> changes nothing (it
  neither draws nor waits). Its continuation sets \<open>previousLandmarkDrawn\<close> to true
  whatever value it awaited, with landmarks or without; so a call that passes the two
  guards suspends on the stored detection result and has the flag set once it has
  resumed.
\<close>

theorem addLandmarks_gate:
  "(\<not> previousLandmarkDrawn s \<longrightarrow> addLandmarks s = s)
   \<and> previousLandmarkDrawn (addLandmarks_resume l s)
   \<and> (canvasElement s \<noteq> None \<and> previousLandmarkDrawn s \<longrightarrow>
        landmarkWaiters (addLandmarks s) = landmarkWaiters s @ [detections s]
        \<and> previousLandmarkDrawn (runMicrotasks (addLandmarks s)))"
  by (simp add: addLandmarks_def)

theorem addLandmarks_gate_witness:
  "\<not> previousLandmarkDrawn (session_v2\<lparr>previousLandmarkDrawn := False\<rparr>)
   \<and> addLandmarks (session_v2\<lparr>previousLandmarkDrawn := False\<rparr>)
       = session_v2\<lparr>previousLandmarkDrawn := False\<rparr>
   \<and> canvasElement session_v2 \<noteq> None
   \<and> previousLandmarkDrawn session_v2
   \<and> detections session_v2 = None
   \<and> landmarkWaiters (addLandmarks session_v2) = [None]
   \<and> previousLandmarkDrawn (runMicrotasks (addLandmarks session_v2))"
proof -
  have a: "\<not> previousLandmarkDrawn (session_v2\<lparr>previousLandmarkDrawn := False\<rparr>)"
    by simp
  have b: "canvasElement session_v2 \<noteq> None \<and> previousLandmarkDrawn session_v2"
    by (simp add: eval_defs)
  have c: "detections session_v2 = None \<and> landmarkWaiters session_v2 = []"
    by (simp add: eval_defs)
  from addLandmarks_gate [of "session_v2\<lparr>previousLandmarkDrawn := False\<rparr>" None] a
    addLandmarks_gate [of session_v2 None] b c
  show ?thesis
    by simp
qed

text \<open>
  C7. When the top-ranked label is none of "happy", "neutral", "sad", "angry", the mood
  is unchanged and the label is appended to the console log; nothing but the log and the
  overlay's background (recomputed from the unchanged mood) differs afterwards, and
  there is no failure outcome. With no stored detection result nothing changes at all.
\<close>

theorem updateMood_unrecognized_label:
  "(topExpression s = Some l \<and> l \<notin> {''happy'', ''neutral'', ''sad'', ''angry''} \<longrightarrow>
      mood (updateMood s) = mood s
      \<and> consoleLog (updateMood s) = consoleLog s @ [l]
      \<and> (updateMood s)\<lparr>filterElement := filterElement s, consoleLog := consoleLog s\<rparr> = s)
   \<and> (detections s = None \<longrightarrow> updateMood s = s)"
  by (auto simp add: updateMood_def topExpression_def Let_def split: option.splits list.splits)

theorem updateMood_unrecognized_label_witness:
  "topExpression (moodAt 0 ''surprised'') = Some ''surprised''
   \<and> ''surprised'' \<notin> {''happy'', ''neutral'', ''sad'', ''angry''}
   \<and> mood (updateMood (moodAt 0 ''surprised'')) = 0
   \<and> consoleLog (updateMood (moodAt 0 ''surprised'')) = [''surprised'']
   \<and> detections session_v2 = None
   \<and> updateMood session_v2 = session_v2"
proof -
  have a: "topExpression (moodAt 0 ''surprised'') = Some ''surprised''
      \<and> ''surprised'' \<notin> {''happy'', ''neutral'', ''sad'', ''angry''}"
    by (simp add: eval_defs)
  have b: "mood (moodAt 0 ''surprised'') = 0 \<and> consoleLog (moodAt 0 ''surprised'') = []"
    by (simp add: eval_defs)
  have c: "detections session_v2 = None"
    by (simp add: eval_defs)
  from updateMood_unrecognized_label [of "moodAt 0 ''surprised''" "''surprised''"] a b
    updateMood_unrecognized_label [of session_v2 "''surprised''"] c
  show ?thesis
    by simp
qed

text \<open>
  C8. After a run of per-frame resize calls the canvas has the size reported last,
  provided the canvas element is there (in the first variant: both canvas elements, and
  then both have that size). A call that finds an element missing changes nothing.
\<close>

theorem resizeCanvas_latest_size:
  "(canvasElement s \<noteq> None \<longrightarrow> canvasSize (resizeAll_v2 (szs @ [sz]) s) = Some sz)
   \<and> (canvasElement s \<noteq> None \<and> canvasRawElement s \<noteq> None \<longrightarrow>
        canvasSize (resizeAll_v1 (szs @ [sz]) s) = Some sz
        \<and> canvasRawSize (resizeAll_v1 (szs @ [sz]) s) = Some sz)
   \<and> (canvasElement s = None \<longrightarrow> resizeCanvas_v2 sz s = s)
   \<and> (canvasElement s = None \<or> canvasRawElement s = None \<longrightarrow> resizeCanvas_v1 sz s = s)"
proof (intro conjI impI)
  assume "canvasElement s \<noteq> None"
  then show "canvasSize (resizeAll_v2 (szs @ [sz]) s) = Some sz"
    by (simp add: resizeAll_snoc resizeCanvas_v2_size resizeAll_v2_present)
next
  assume both: "canvasElement s \<noteq> None \<and> canvasRawElement s \<noteq> None"
  from resizeAll_v1_present [OF both, of szs]
  show "canvasSize (resizeAll_v1 (szs @ [sz]) s) = Some sz"
    and "canvasRawSize (resizeAll_v1 (szs @ [sz]) s) = Some sz"
    by (simp_all add: resizeAll_snoc resizeCanvas_v1_size)
next
  assume "canvasElement s = None"
  then show "resizeCanvas_v2 sz s = s"
    by (simp add: resizeCanvas_v2_def)
next
  assume "canvasElement s = None \<or> canvasRawElement s = None"
  then show "resizeCanvas_v1 sz s = s"
    by (auto simp add: resizeCanvas_v1_def split: option.splits)
qed

theorem resizeCanvas_latest_size_witness:
  "canvasElement session_v2 \<noteq> None
   \<and> canvasSize (resizeAll_v2 [(640, 480)] session_v2) = Some (640, 480)
   \<and> canvasSize (resizeAll_v2 [(640, 480), (1280, 720)] session_v2) = Some (1280, 720)
   \<and> canvasElement session_v1 \<noteq> None \<and> canvasRawElement session_v1 \<noteq> None
   \<and> canvasSize (resizeAll_v1 [(640, 480), (1280, 720)] session_v1) = Some (1280, 720)
   \<and> canvasRawSize (resizeAll_v1 [(640, 480), (1280, 720)] session_v1) = Some (1280, 720)
   \<and> canvasElement (session_v2\<lparr>canvasElement := None\<rparr>) = None
   \<and> resizeCanvas_v2 (640, 480) (session_v2\<lparr>canvasElement := None\<rparr>)
       = session_v2\<lparr>canvasElement := None\<rparr>"
proof -
  have a: "canvasElement session_v2 \<noteq> None"
    by (simp add: eval_defs)
  have b: "canvasElement session_v1 \<noteq> None \<and> canvasRawElement session_v1 \<noteq> None"
    by (simp add: eval_defs)
  have c: "canvasElement (session_v2\<lparr>canvasElement := None\<rparr>) = None"
    by simp
  from resizeCanvas_latest_size [of session_v2 "[]" "(640, 480)"]
    resizeCanvas_latest_size [of session_v2 "[(640, 480)]" "(1280, 720)"]
    resizeCanvas_latest_size [of session_v1 "[(640, 480)]" "(1280, 720)"]
    resizeCanvas_latest_size [of "session_v2\<lparr>canvasElement := None\<rparr>" "[]" "(640, 480)"]
    a b c
  show ?thesis
    by simp
qed

text \<open>
  C9. In every state either variant can reach, \<open>previousDetectionFinished\<close> and
  \<open>previousLandmarkDrawn\<close> are both true: nothing ever assigns false to them. So in
  such a state \<open>detectFaces\<close> issues a detection call whenever its other three guards
  pass, and \<open>addLandmarks\<close> suspends on the stored result whenever the canvas is there.
\<close>

theorem gate_flags_always_true:
  assumes "s = run_v1 es (init_v1 v r c) \<or> s = run_v2 es (init_v2 v c f)"
  shows "previousDetectionFinished s \<and> previousLandmarkDrawn s
    \<and> (modelLoaded s \<and> videoElement s = Some vd \<and> \<not> paused vd \<and> \<not> ended vd \<longrightarrow>
         detectFaces s = s\<lparr>detectionsInFlight := detectionsInFlight s + 1\<rparr>)
    \<and> (canvasElement s \<noteq> None \<longrightarrow>
         addLandmarks s = s\<lparr>landmarkWaiters := landmarkWaiters s @ [detections s]\<rparr>)"
proof -
  from assms have flags: "previousDetectionFinished s \<and> previousLandmarkDrawn s"
    by (auto simp add: run_v1_keeps run_v2_keeps init_v1_def init_v2_def mounted_def)
  then show ?thesis
    by (simp add: detectFaces_def addLandmarks_def)
qed

theorem gate_flags_always_true_witness:
  "previousDetectionFinished (run_v2 (playing @ [VideoFrame 640 480]) session_v2)
   \<and> previousLandmarkDrawn (run_v2 (playing @ [VideoFrame 640 480]) session_v2)
   \<and> modelLoaded (run_v2 (playing @ [VideoFrame 640 480]) session_v2)
   \<and> videoElement (run_v2 (playing @ [VideoFrame 640 480]) session_v2)
       = Some (aVideo\<lparr>paused := False, srcObject := True, playCalled := True\<rparr>)
   \<and> canvasElement (run_v2 (playing @ [VideoFrame 640 480]) session_v2) \<noteq> None
   \<and> detectionsInFlight (detectFaces (run_v2 (playing @ [VideoFrame 640 480]) session_v2)) = 2
   \<and> landmarkWaiters (addLandmarks (run_v2 (playing @ [VideoFrame 640 480]) session_v2)) = [None]"
proof -
  have a: "modelLoaded (run_v2 (playing @ [VideoFrame 640 480]) session_v2)
      \<and> videoElement (run_v2 (playing @ [VideoFrame 640 480]) session_v2)
          = Some (aVideo\<lparr>paused := False, srcObject := True, playCalled := True\<rparr>)
      \<and> \<not> paused (aVideo\<lparr>paused := False, srcObject := True, playCalled := True\<rparr>)
      \<and> \<not> ended (aVideo\<lparr>paused := False, srcObject := True, playCalled := True\<rparr>)"
    by code_simp
  have b: "canvasElement (run_v2 (playing @ [VideoFrame 640 480]) session_v2) \<noteq> None"
    by code_simp
  have c: "detectionsInFlight (run_v2 (playing @ [VideoFrame 640 480]) session_v2) = 1
      \<and> landmarkWaiters (run_v2 (playing @ [VideoFrame 640 480]) session_v2) = []
      \<and> detections (run_v2 (playing @ [VideoFrame 640 480]) session_v2) = None"
    by code_simp
  have d: "run_v2 (playing @ [VideoFrame 640 480]) session_v2
      = run_v1 (playing @ [VideoFrame 640 480]) (init_v1 (Some aVideo) None (Some aCanvas))
      \<or> run_v2 (playing @ [VideoFrame 640 480]) session_v2
      = run_v2 (playing @ [VideoFrame 640 480]) (init_v2 (Some aVideo) (Some aCanvas) (Some anOverlay))"
    by (simp add: session_v2_def)
  from gate_flags_always_true [OF d,
      of "aVideo\<lparr>paused := False, srcObject := True, playCalled := True\<rparr>"] a b c
  show ?thesis
    by simp
qed

text \<open>
  C10. The first variant never changes its mood: it is 0 in every reachable state, and
  whenever \<open>handleImage\<close> gets past its guards the filter it assigns is
  \<open>sepia(1) saturate(4) hue-rotate(0deg)\<close>. The second variant starts at 180 and does
  change its mood: after one frame with a stored neutral face it is 175.
\<close>

theorem mood_v1_constant:
  "mood (run_v1 es (init_v1 v r c)) = 0
   \<and> (ctx (run_v1 es (init_v1 v r c)) \<noteq> None \<and> ctxRaw (run_v1 es (init_v1 v r c)) \<noteq> None \<longrightarrow>
        map_option style_filter (canvasElement (handleImage (run_v1 es (init_v1 v r c))))
          = Some ''sepia(1) saturate(4) hue-rotate(0deg)'')
   \<and> mood (init_v2 v c f) = 180
   \<and> mood (run_v2 (playing @ [VideoFrame 640 480, DetectionResolved (Some (face ''neutral'')),
               VideoFrame 640 480]) session_v2) = 175"
proof (intro conjI impI)
  show m: "mood (run_v1 es (init_v1 v r c)) = 0"
    by (simp add: run_v1_keeps init_v1_def mounted_def)
  show "mood (init_v2 v c f) = 180"
    by (simp add: init_v2_def mounted_def)
  show "mood (run_v2 (playing @ [VideoFrame 640 480, DetectionResolved (Some (face ''neutral'')),
               VideoFrame 640 480]) session_v2) = 175"
    by code_simp
  assume g: "ctx (run_v1 es (init_v1 v r c)) \<noteq> None \<and> ctxRaw (run_v1 es (init_v1 v r c)) \<noteq> None"
  then have "canvasElement (run_v1 es (init_v1 v r c)) \<noteq> None"
    by (simp add: ctx_canvas)
  with g m show "map_option style_filter (canvasElement (handleImage (run_v1 es (init_v1 v r c))))
          = Some ''sepia(1) saturate(4) hue-rotate(0deg)''"
    by (auto simp add: handleImage_def Let_def setStyleFilter_def showNumber_0)
qed

theorem mood_v1_constant_witness:
  "ctx (run_v1 (playing @ [VideoFrame 640 480]) session_v1) \<noteq> None
   \<and> ctxRaw (run_v1 (playing @ [VideoFrame 640 480]) session_v1) \<noteq> None
   \<and> mood (run_v1 (playing @ [VideoFrame 640 480]) session_v1) = 0
   \<and> map_option style_filter
        (canvasElement (handleImage (run_v1 (playing @ [VideoFrame 640 480]) session_v1)))
       = Some ''sepia(1) saturate(4) hue-rotate(0deg)''"
proof -
  have g: "ctx (run_v1 (playing @ [VideoFrame 640 480]) session_v1) \<noteq> None
      \<and> ctxRaw (run_v1 (playing @ [VideoFrame 640 480]) session_v1) \<noteq> None"
    by code_simp
  from mood_v1_constant [of "playing @ [VideoFrame 640 480]" "Some aVideo" "Some aCanvas"
      "Some aCanvas"] g
  show ?thesis
    by (simp add: session_v1_def)
qed

end
